theory Spec2Isabelle
  imports Complex_Main "HOL-Library.Char_ord" "HOL-Library.List_Lexorder"
    "HOL-Library.Product_Lexorder" "HOL-Library.Multiset"
begin

section \<open>Floating-point values\<close>

text \<open>
  The scanner computes with Python and numpy floats. A float is modelled as either the
  not-a-number value or an exact real: rounding, overflow and the infinities are not
  modelled. Not-a-number propagates through arithmetic, and every ordered comparison with
  it is false, as in IEEE 754.
\<close>

datatype fl = NaN | Fin real

fun fl_abs :: "fl \<Rightarrow> fl" where
  "fl_abs (Fin x) = Fin \<bar>x\<bar>"
| "fl_abs NaN = NaN"

fun fl_neg :: "fl \<Rightarrow> fl" where
  "fl_neg (Fin x) = Fin (- x)"
| "fl_neg NaN = NaN"

fun fl_add :: "fl \<Rightarrow> fl \<Rightarrow> fl" where
  "fl_add (Fin x) (Fin y) = Fin (x + y)"
| "fl_add _ _ = NaN"

fun fl_sub :: "fl \<Rightarrow> fl \<Rightarrow> fl" where
  "fl_sub (Fin x) (Fin y) = Fin (x - y)"
| "fl_sub _ _ = NaN"

fun fl_mul :: "fl \<Rightarrow> fl \<Rightarrow> fl" where
  "fl_mul (Fin x) (Fin y) = Fin (x * y)"
| "fl_mul _ _ = NaN"

text \<open>
  Zero divided by zero is not-a-number. A non-zero value divided by zero would be an
  infinity; the scanner never computes one: the z-score division is guarded by
  \<open>spread_std != 0\<close>, and in the correlation a zero deviation forces a zero covariance
  (lemma \<open>cov_zero\<close> below).
\<close>

fun fl_div :: "fl \<Rightarrow> fl \<Rightarrow> fl" where
  "fl_div (Fin x) (Fin y) = (if y = 0 then NaN else Fin (x / y))"
| "fl_div _ _ = NaN"

fun fl_less :: "fl \<Rightarrow> fl \<Rightarrow> bool" where
  "fl_less (Fin x) (Fin y) = (x < y)"
| "fl_less _ _ = False"

fun fl_ge :: "fl \<Rightarrow> fl \<Rightarrow> bool" where
  "fl_ge (Fin x) (Fin y) = (y \<le> x)"
| "fl_ge _ _ = False"

text \<open>
  Python's builtin \<open>min(a, b)\<close> returns \<open>a\<close> unless \<open>b < a\<close>, and \<open>max(a, b)\<close>
  returns \<open>a\<close> unless \<open>b > a\<close>.
\<close>

definition py_min :: "fl \<Rightarrow> fl \<Rightarrow> fl" where
  "py_min a b = (if fl_less b a then b else a)"

definition py_max :: "fl \<Rightarrow> fl \<Rightarrow> fl" where
  "py_max a b = (if fl_less a b then b else a)"

section \<open>Series statistics of pandas and numpy\<close>

text \<open>
  \<open>Series.mean\<close> is the sum over the count; \<open>Series.std\<close> is the sample standard
  deviation (one delta degree of freedom), not-a-number for fewer than two values;
  \<open>Series.corr\<close> is numpy's \<open>corrcoef\<close>: the sample covariance divided by the first
  and then by the second standard deviation, clipped to the interval from -1 to 1.
\<close>

definition avg :: "real list \<Rightarrow> real" where
  "avg xs = sum_list xs / real (length xs)"

definition mean :: "real list \<Rightarrow> fl" where
  "mean xs = (if xs = [] then NaN else Fin (avg xs))"

definition sq_dev :: "real list \<Rightarrow> real" where
  "sq_dev xs = sum_list (map (\<lambda>x. (avg xs - x)\<^sup>2) xs)"

definition std :: "real list \<Rightarrow> fl" where
  "std xs = (if length xs \<le> 1 then NaN
             else Fin (sqrt (sq_dev xs / real (length xs - 1))))"

definition cov :: "real list \<Rightarrow> real list \<Rightarrow> real" where
  "cov xs ys =
     sum_list (map2 (\<lambda>x y. (x - avg xs) * (y - avg ys)) xs ys) / real (length xs - 1)"

definition fl_clip :: "fl \<Rightarrow> real \<Rightarrow> real \<Rightarrow> fl" where
  "fl_clip v lo hi = (case v of NaN \<Rightarrow> NaN | Fin x \<Rightarrow> Fin (min (max x lo) hi))"

definition corr :: "real list \<Rightarrow> real list \<Rightarrow> fl" where
  "corr xs ys =
     fl_clip (fl_div (fl_div (Fin (cov xs ys)) (Fin (sqrt (cov xs xs))))
                     (Fin (sqrt (cov ys ys)))) (- 1) 1"

section \<open>Price data\<close>

type_synonym ticker = string

text \<open>
  The \<open>Adj Close\<close> column of a downloaded frame: rows of a date and a value, dates
  ascending. A date is its proleptic Gregorian ordinal, so that Sundays are the multiples
  of 7. The download itself is outside the program: it is a parameter, \<open>None\<close> when it
  raises.
\<close>

type_synonym frame = "(int \<times> fl) list"

definition fetch_ticker_data :: "(ticker \<Rightarrow> frame option) \<Rightarrow> ticker \<Rightarrow> frame option" where
  "fetch_ticker_data download t =
     (case download t of
        None \<Rightarrow> None
      | Some data \<Rightarrow> if data = [] then None else Some data)"

text \<open>
  \<open>resample("W").last()\<close>: every row falls into the week that ends on the first Sunday
  on or after its date, and a week's value is its last value that is not not-a-number.
  Weeks without any row, which pandas fills with not-a-number, are left out here; the
  alignment drops them in either form.
\<close>

definition week_end :: "int \<Rightarrow> int" where
  "week_end d = d + (- d) mod 7"

fun resample_W_last :: "frame \<Rightarrow> frame" where
  "resample_W_last [] = []"
| "resample_W_last ((d, v) # rows) =
     (case resample_W_last rows of
        [] \<Rightarrow> [(week_end d, v)]
      | (w, u) # rest \<Rightarrow>
          if week_end d = w then (w, if u = NaN then v else u) # rest
          else (week_end d, v) # (w, u) # rest)"

text \<open>
  \<open>pd.concat(axis=1)\<close> followed by \<open>dropna\<close>: the weeks for which both series have a
  value that is not not-a-number, in ascending order, with the two values.
\<close>

type_synonym aligned = "(int \<times> real \<times> real) list"

definition align :: "frame \<Rightarrow> frame \<Rightarrow> aligned" where
  "align w1 w2 =
     List.map_filter
       (\<lambda>(d, a). case (a, map_of w2 d) of
                   (Fin x, Some (Fin y)) \<Rightarrow> Some (d, x, y)
                 | _ \<Rightarrow> None) w1"

section \<open>Pair statistics\<close>

definition spread_of :: "aligned \<Rightarrow> real list" where
  "spread_of al = map (\<lambda>(d, x, y). x - y) al"

definition series1 :: "aligned \<Rightarrow> real list" where
  "series1 al = map (\<lambda>(d, x, y). x) al"

definition series2 :: "aligned \<Rightarrow> real list" where
  "series2 al = map (\<lambda>(d, x, y). y) al"

definition highest :: "real list \<Rightarrow> real" where
  "highest sp = Max (set sp)"

definition lowest :: "real list \<Rightarrow> real" where
  "lowest sp = Min (set sp)"

definition current :: "real list \<Rightarrow> real" where
  "current sp = last sp"

definition correlation_of :: "aligned \<Rightarrow> fl" where
  "correlation_of al =
     (if length (series1 al) > 1 then corr (series1 al) (series2 al) else NaN)"

definition z_score_of :: "real list \<Rightarrow> fl" where
  "z_score_of sp =
     (if std sp \<noteq> Fin 0 then fl_div (fl_sub (Fin (current sp)) (mean sp)) (std sp)
      else Fin 0)"

definition mean_rev_prob_of :: "fl \<Rightarrow> fl" where
  "mean_rev_prob_of z =
     (let p_reverse = fl_sub (Fin 1) (fl_div (fl_abs z) (Fin 3))
      in py_max (py_min p_reverse (Fin 1)) (Fin 0))"

definition total_score_of :: "fl \<Rightarrow> fl \<Rightarrow> fl \<Rightarrow> fl" where
  "total_score_of c p z =
     fl_add (fl_add (fl_mul (fl_abs c) (Fin 2)) (fl_mul p (Fin 3))) (fl_mul (fl_abs z) (Fin 1))"

definition is_max :: "real list \<Rightarrow> bool" where
  "is_max sp = (highest sp - current sp \<le> 5 / 100 * \<bar>highest sp\<bar>)"

definition is_min :: "real list \<Rightarrow> bool" where
  "is_min sp = (current sp - lowest sp \<le> 5 / 100 * \<bar>lowest sp\<bar>)"

section \<open>The scan\<close>

text \<open>
  A recorded signal. The formatted message is a rendering of the other fields and is left
  out; the stored spread frame is the list of dates and spread values.
\<close>

record pair_signal =
  total_score :: fl
  ticker1 :: ticker
  ticker2 :: ticker
  signal_type :: string
  correlation :: fl
  z_score :: fl
  mean_reversion_prob :: fl
  risk :: real
  reward :: real
  spread :: "(int \<times> real) list"

record scan_state =
  pair_scores :: "pair_signal list"
  long_positions :: "ticker list"
  short_positions :: "ticker list"

definition make_signal :: "ticker \<Rightarrow> ticker \<Rightarrow> aligned \<Rightarrow> string \<Rightarrow> real \<Rightarrow> real \<Rightarrow> pair_signal" where
  "make_signal t1 t2 al styp rsk rwd =
     (let sp = spread_of al;
          c = correlation_of al;
          z = z_score_of sp;
          p = mean_rev_prob_of z
      in \<lparr> total_score = total_score_of c p z,
           ticker1 = t1, ticker2 = t2,
           signal_type = styp,
           correlation = c,
           z_score = z,
           mean_reversion_prob = p,
           risk = rsk, reward = rwd,
           spread = zip (map fst al) sp \<rparr>)"

text \<open>The body of the loop from the spread onwards, for a pair with aligned rows.\<close>

definition analyze_aligned :: "scan_state \<Rightarrow> ticker \<Rightarrow> ticker \<Rightarrow> aligned \<Rightarrow> scan_state" where
  "analyze_aligned st t1 t2 al =
     (let sp = spread_of al in
      if is_max sp \<or> is_min sp then
        (if is_max sp then
           \<lparr> pair_scores = pair_scores st @
               [make_signal t1 t2 al ''Max level''
                  (highest sp - current sp) (current sp - lowest sp)],
             long_positions = long_positions st @ [t2],
             short_positions = short_positions st @ [t1] \<rparr>
         else
           \<lparr> pair_scores = pair_scores st @
               [make_signal t1 t2 al ''Min level''
                  (current sp - lowest sp) (highest sp - current sp)],
             long_positions = long_positions st @ [t1],
             short_positions = short_positions st @ [t2] \<rparr>)
      else st)"

text \<open>
  One iteration of the loop over the ticker pairs. A ticker paired with itself (a ticker
  listed twice) is outside this model: the two columns of the aligned frame then carry
  the same label, and selecting by that label no longer yields a single series. The
  properties below are stated for pairs of different tickers.
\<close>

definition analyze_pair ::
  "(ticker \<Rightarrow> frame option) \<Rightarrow> ticker \<times> ticker \<Rightarrow> scan_state \<Rightarrow> scan_state" where
  "analyze_pair download p st =
     (case p of (t1, t2) \<Rightarrow>
        (case (fetch_ticker_data download t1, fetch_ticker_data download t2) of
           (Some data1, Some data2) \<Rightarrow>
             (let al = align (resample_W_last data1) (resample_W_last data2)
              in if al = [] then st else analyze_aligned st t1 t2 al)
         | _ \<Rightarrow> st))"

text \<open>\<open>itertools.combinations(tickers, 2)\<close>.\<close>

fun combinations2 :: "'a list \<Rightarrow> ('a \<times> 'a) list" where
  "combinations2 [] = []"
| "combinations2 (x # xs) = map (Pair x) xs @ combinations2 xs"

text \<open>The three accumulators before the loop, and the loop.\<close>

definition initial_state :: scan_state where
  "initial_state = \<lparr> pair_scores = [], long_positions = [], short_positions = [] \<rparr>"

definition scan :: "(ticker \<Rightarrow> frame option) \<Rightarrow> ticker list \<Rightarrow> scan_state" where
  "scan download tickers =
     fold (analyze_pair download) (combinations2 tickers) initial_state"

section \<open>Ranking and aggregation\<close>

text \<open>
  \<open>list.sort(key=..., reverse=True)\<close> is stable and compares keys with \<open><\<close> only. It is
  modelled as the stable insertion that moves a signal behind exactly those following
  signals whose key it is less than.
\<close>

fun insert_desc :: "pair_signal \<Rightarrow> pair_signal list \<Rightarrow> pair_signal list" where
  "insert_desc x [] = [x]"
| "insert_desc x (y # ys) =
     (if fl_less (total_score x) (total_score y) then y # insert_desc x ys
      else x # y # ys)"

definition sort_desc :: "pair_signal list \<Rightarrow> pair_signal list" where
  "sort_desc xs = foldr insert_desc xs []"

text \<open>\<open>Counter\<close>: a dictionary of counts, keys in order of first occurrence.\<close>

fun counter_add :: "ticker \<Rightarrow> (ticker \<times> nat) list \<Rightarrow> (ticker \<times> nat) list" where
  "counter_add t [] = [(t, 1)]"
| "counter_add t ((k, c) # kvs) =
     (if k = t then (k, c + 1) # kvs else (k, c) # counter_add t kvs)"

definition Counter :: "ticker list \<Rightarrow> (ticker \<times> nat) list" where
  "Counter xs = fold counter_add xs []"

definition sorted_counts :: "(ticker \<times> nat) list \<Rightarrow> (ticker \<times> nat) list" where
  "sorted_counts items = sort_key (\<lambda>x. (- int (snd x), fst x)) items"

record scan_result =
  pair_signals :: "pair_signal list"
  longs :: "(ticker \<times> nat) list"
  shorts :: "(ticker \<times> nat) list"

definition analyze_ticker_pairs :: "(ticker \<Rightarrow> frame option) \<Rightarrow> ticker list \<Rightarrow> scan_result" where
  "analyze_ticker_pairs download tickers =
     (let st = scan download tickers
      in \<lparr> pair_signals = sort_desc (pair_scores st),
           longs = sorted_counts (Counter (long_positions st)),
           shorts = sorted_counts (Counter (short_positions st)) \<rparr>)"

section \<open>Notions used to state the properties\<close>

text \<open>
  The aligned rows that the loop body computes for a pair; empty exactly when the body
  skips the pair before any statistic (no data for a ticker, or no common week).
\<close>

definition aligned_rows :: "(ticker \<Rightarrow> frame option) \<Rightarrow> ticker \<Rightarrow> ticker \<Rightarrow> aligned" where
  "aligned_rows download t1 t2 =
     (case (fetch_ticker_data download t1, fetch_ticker_data download t2) of
        (Some data1, Some data2) \<Rightarrow> align (resample_W_last data1) (resample_W_last data2)
      | _ \<Rightarrow> [])"



text \<open>
  The instrument a signal recommends going long and the one it recommends going short:
  a signal at the maximum is long its second ticker, a signal at the minimum its first.
\<close>

definition long_leg :: "pair_signal \<Rightarrow> ticker" where
  "long_leg s = (if signal_type s = ''Max level'' then ticker2 s else ticker1 s)"

definition short_leg :: "pair_signal \<Rightarrow> ticker" where
  "short_leg s = (if signal_type s = ''Max level'' then ticker1 s else ticker2 s)"

text \<open>The count a tally holds for an instrument, zero when the instrument is absent.\<close>

definition tally :: "(ticker \<times> nat) list \<Rightarrow> ticker \<Rightarrow> nat" where
  "tally items t = (case map_of items t of None \<Rightarrow> 0 | Some c \<Rightarrow> c)"

text \<open>Descending order of scores under the floating-point comparison \<open>>=\<close>.\<close>

definition sorted_desc :: "fl list \<Rightarrow> bool" where
  "sorted_desc vs = sorted_wrt fl_ge vs"

text \<open>The values of a stored spread frame.\<close>

definition spread_values :: "pair_signal \<Rightarrow> real list" where
  "spread_values s = map snd (spread s)"

text \<open>The signals that one iteration of the loop appends, on its own.\<close>

definition signals_of_pair :: "(ticker \<Rightarrow> frame option) \<Rightarrow> ticker \<times> ticker \<Rightarrow> pair_signal list" where
  "signals_of_pair download p = pair_scores (analyze_pair download p initial_state)"


subsection \<open>A sample download\<close>

text \<open>
  Daily rows on weekdays of five consecutive weeks (the Fridays are the ordinals 5, 12,
  19, 26 and 33). \<open>A\<close> has two rows in its first week and a missing value on its
  last day; \<open>A\<close> and \<open>C\<close> share one week only; \<open>F\<close> shares no week with the
  others; \<open>G\<close> downloads an empty frame; any other ticker fails to download.
\<close>

definition sample_download :: "ticker \<Rightarrow> frame option" where
  "sample_download t =
     (if t = ''A'' then Some [(4, Fin 9), (5, Fin 11), (12, Fin 12), (18, Fin 13), (19, NaN)]
      else if t = ''B'' then
        Some [(5, Fin 10), (12, Fin 12), (19, Fin 11), (26, Fin 13), (33, Fin 15)]
      else if t = ''C'' then Some [(19, Fin 11), (26, Fin 12), (33, Fin 13)]
      else if t = ''D'' then Some [(5, Fin 10), (12, Fin 8), (19, Fin 11)]
      else if t = ''E'' then Some [(5, Fin 10), (12, Fin 11), (19, Fin 12)]
      else if t = ''F'' then Some [(40, Fin 5)]
      else if t = ''G'' then Some []
      else None)"

section \<open>Basic facts about the loop body\<close>

lemma analyze_pair_rows:
  "analyze_pair download (t1, t2) st =
     (if aligned_rows download t1 t2 = [] then st
      else analyze_aligned st t1 t2 (aligned_rows download t1 t2))"
  by (simp add: analyze_pair_def aligned_rows_def Let_def split: option.splits)

lemma spread_of_Nil_iff [simp]: "spread_of al = [] \<longleftrightarrow> al = []"
  by (simp add: spread_of_def)

lemma length_spread_of [simp]: "length (spread_of al) = length al"
  by (simp add: spread_of_def)



lemma analyze_aligned_max:
  "is_max (spread_of al) \<Longrightarrow>
   analyze_aligned st t1 t2 al =
     \<lparr> pair_scores = pair_scores st @
         [make_signal t1 t2 al ''Max level''
            (highest (spread_of al) - current (spread_of al))
            (current (spread_of al) - lowest (spread_of al))],
       long_positions = long_positions st @ [t2],
       short_positions = short_positions st @ [t1] \<rparr>"
  by (simp add: analyze_aligned_def Let_def)

lemma analyze_aligned_min:
  "\<not> is_max (spread_of al) \<Longrightarrow> is_min (spread_of al) \<Longrightarrow>
   analyze_aligned st t1 t2 al =
     \<lparr> pair_scores = pair_scores st @
         [make_signal t1 t2 al ''Min level''
            (current (spread_of al) - lowest (spread_of al))
            (highest (spread_of al) - current (spread_of al))],
       long_positions = long_positions st @ [t1],
       short_positions = short_positions st @ [t2] \<rparr>"
  by (simp add: analyze_aligned_def Let_def)

lemma analyze_aligned_none:
  "\<not> is_max (spread_of al) \<Longrightarrow> \<not> is_min (spread_of al) \<Longrightarrow>
   analyze_aligned st t1 t2 al = st"
  by (simp add: analyze_aligned_def Let_def)

lemma make_signal_fields [simp]:
  "ticker1 (make_signal t1 t2 al styp rsk rwd) = t1"
  "ticker2 (make_signal t1 t2 al styp rsk rwd) = t2"
  "signal_type (make_signal t1 t2 al styp rsk rwd) = styp"
  "risk (make_signal t1 t2 al styp rsk rwd) = rsk"
  "reward (make_signal t1 t2 al styp rsk rwd) = rwd"
  "correlation (make_signal t1 t2 al styp rsk rwd) = correlation_of al"
  "z_score (make_signal t1 t2 al styp rsk rwd) = z_score_of (spread_of al)"
  "mean_reversion_prob (make_signal t1 t2 al styp rsk rwd) =
     mean_rev_prob_of (z_score_of (spread_of al))"
  "total_score (make_signal t1 t2 al styp rsk rwd) =
     total_score_of (correlation_of al) (mean_rev_prob_of (z_score_of (spread_of al)))
       (z_score_of (spread_of al))"
  "spread (make_signal t1 t2 al styp rsk rwd) = zip (map fst al) (spread_of al)"
  by (simp_all add: make_signal_def Let_def)

section \<open>Statistics of a negated and of a swapped series\<close>













lemma fl_abs_neg [simp]: "fl_abs (fl_neg a) = fl_abs a"
  by (cases a) simp_all





lemma cov_zero:
  assumes "cov xs xs = 0" and "length xs = length ys" and "1 < length xs"
  shows "cov xs ys = 0"
proof -
  have "sum_list (map2 (\<lambda>x y. (x - avg xs) * (y - avg xs)) xs xs) = 0"
    using assms(1,3) by (simp add: cov_def)
  moreover have "map2 (\<lambda>x y. (x - avg xs) * (y - avg xs)) xs xs = map (\<lambda>x. (x - avg xs)\<^sup>2) xs"
    by (induction xs) (simp_all add: power2_eq_square zip_same_conv_map)
  ultimately have "sum_list (map (\<lambda>x. (x - avg xs)\<^sup>2) xs) = 0"
    by simp
  then have "\<forall>v\<in>set (map (\<lambda>x. (x - avg xs)\<^sup>2) xs). v = 0"
    by (subst (asm) sum_list_nonneg_eq_0_iff) auto
  then have flat: "\<forall>x\<in>set xs. x = avg xs"
    by simp
  have zero: "sum_list (map f ps) = 0" if "\<forall>p\<in>set ps. f p = 0"
    for f :: "real \<times> real \<Rightarrow> real" and ps
    using that by (induction ps) simp_all
  have "sum_list (map2 (\<lambda>x y. (x - avg xs) * (y - avg ys)) xs ys) = 0"
    by (rule zero) (use flat in \<open>auto dest: set_zip_leftD\<close>)
  then show ?thesis
    by (simp add: cov_def)
qed


section \<open>The loop as a whole\<close>

lemma initial_state_fields [simp]:
  "pair_scores initial_state = []"
  "long_positions initial_state = []"
  "short_positions initial_state = []"
  by (simp_all add: initial_state_def)

lemma long_leg_make [simp]:
  "long_leg (make_signal t1 t2 al ''Max level'' r w) = t2"
  "long_leg (make_signal t1 t2 al ''Min level'' r w) = t1"
  "short_leg (make_signal t1 t2 al ''Max level'' r w) = t1"
  "short_leg (make_signal t1 t2 al ''Min level'' r w) = t2"
  by (simp_all add: long_leg_def short_leg_def)

lemma analyze_aligned_step:
  "analyze_aligned st t1 t2 al =
     (let new = pair_scores (analyze_aligned initial_state t1 t2 al)
      in \<lparr> pair_scores = pair_scores st @ new,
           long_positions = long_positions st @ map long_leg new,
           short_positions = short_positions st @ map short_leg new \<rparr>)"
  by (simp add: analyze_aligned_def initial_state_def Let_def)

lemma analyze_pair_step:
  "analyze_pair download p st =
     \<lparr> pair_scores = pair_scores st @ signals_of_pair download p,
       long_positions = long_positions st @ map long_leg (signals_of_pair download p),
       short_positions = short_positions st @ map short_leg (signals_of_pair download p) \<rparr>"
proof (cases p)
  case (Pair t1 t2)
  show ?thesis
    unfolding Pair signals_of_pair_def analyze_pair_rows
    using analyze_aligned_step[of st t1 t2 "aligned_rows download t1 t2"]
    by (simp add: Let_def)
qed

lemma fold_analyze_pair:
  "fold (analyze_pair download) ps st =
     \<lparr> pair_scores = pair_scores st @ concat (map (signals_of_pair download) ps),
       long_positions =
         long_positions st @ map long_leg (concat (map (signals_of_pair download) ps)),
       short_positions =
         short_positions st @ map short_leg (concat (map (signals_of_pair download) ps)) \<rparr>"
proof (induction ps arbitrary: st)
  case Nil
  then show ?case by simp
next
  case (Cons p ps)
  show ?case
    unfolding fold_simps(2) Cons.IH
    by (simp add: analyze_pair_step[of download p st])
qed

lemma scan_signals:
  "pair_scores (scan download tickers) =
     concat (map (signals_of_pair download) (combinations2 tickers))"
  "long_positions (scan download tickers) = map long_leg (pair_scores (scan download tickers))"
  "short_positions (scan download tickers) = map short_leg (pair_scores (scan download tickers))"
  by (simp_all add: scan_def fold_analyze_pair initial_state_def)

lemma signals_of_pair_cases:
  "signals_of_pair download (t1, t2) =
     (let al = aligned_rows download t1 t2; sp = spread_of al in
      if al = [] then []
      else if is_max sp then
        [make_signal t1 t2 al ''Max level'' (highest sp - current sp) (current sp - lowest sp)]
      else if is_min sp then
        [make_signal t1 t2 al ''Min level'' (current sp - lowest sp) (highest sp - current sp)]
      else [])"
  by (simp add: signals_of_pair_def analyze_pair_rows analyze_aligned_def initial_state_def Let_def)

lemma spread_values_make [simp]:
  "spread_values (make_signal t1 t2 al styp r w) = spread_of al"
  by (simp add: spread_values_def map_snd_zip)

section \<open>The ranking sort\<close>

lemma mset_insert_desc: "mset (insert_desc x ys) = add_mset x (mset ys)"
  by (induction ys) simp_all

lemma mset_sort_desc: "mset (sort_desc xs) = mset xs"
  by (induction xs) (simp_all add: sort_desc_def mset_insert_desc)

lemma set_sort_desc: "set (sort_desc xs) = set xs"
  using mset_sort_desc by (metis set_mset_mset)

lemma length_sort_desc: "length (sort_desc xs) = length xs"
  using mset_sort_desc by (metis size_mset)





section \<open>The tallies\<close>

lemma sum_counter_add: "sum_list (map snd (counter_add t kvs)) = Suc (sum_list (map snd kvs))"
  by (induction t kvs rule: counter_add.induct) auto

lemma sum_fold_counter_add:
  "sum_list (map snd (fold counter_add xs kvs)) = length xs + sum_list (map snd kvs)"
  by (induction xs arbitrary: kvs) (simp_all add: sum_counter_add)

lemma sum_Counter: "sum_list (map snd (Counter xs)) = length xs"
  by (simp add: Counter_def sum_fold_counter_add)

lemma sum_sorted_counts: "sum_list (map snd (sorted_counts items)) = sum_list (map snd items)"
proof -
  have "mset (map snd (sorted_counts items)) = mset (map snd items)"
    by (simp add: sorted_counts_def)
  then show ?thesis
    by (metis sum_mset_sum_list)
qed

lemma keys_counter_add: "fst ` set (counter_add t kvs) = insert t (fst ` set kvs)"
  by (induction t kvs rule: counter_add.induct) auto

lemma distinct_counter_add:
  "distinct (map fst kvs) \<Longrightarrow> distinct (map fst (counter_add t kvs))"
  by (induction t kvs rule: counter_add.induct) (auto simp: keys_counter_add)

lemma tally_counter_add:
  "tally (counter_add t kvs) u = (if u = t then Suc (tally kvs u) else tally kvs u)"
  by (induction t kvs rule: counter_add.induct) (auto simp: tally_def)

lemma fold_counter_add:
  "distinct (map fst kvs) \<Longrightarrow>
   distinct (map fst (fold counter_add xs kvs)) \<and>
   tally (fold counter_add xs kvs) u = count_list xs u + tally kvs u"
  by (induction xs arbitrary: kvs) (simp_all add: distinct_counter_add tally_counter_add)

lemma tally_Counter: "tally (Counter xs) u = count_list xs u"
  using fold_counter_add[of "[]" xs u] by (simp add: Counter_def tally_def)

lemma distinct_Counter: "distinct (map fst (Counter xs))"
  using fold_counter_add[of "[]" xs] by (simp add: Counter_def)

lemma tally_sorted_counts:
  "distinct (map fst items) \<Longrightarrow> tally (sorted_counts items) u = tally items u"
proof -
  assume d: "distinct (map fst items)"
  have "map_of (sorted_counts items) = map_of items"
    by (rule map_of_eqI)
      (use d in \<open>auto simp: sorted_counts_def map_of_eq_Some_iff distinct_map
                      intro!: map_of_is_SomeI\<close>)
  then show ?thesis by (simp add: tally_def)
qed


section \<open>The sample download, evaluated\<close>

lemmas sample_eval =
  aligned_rows_def sample_download_def fetch_ticker_data_def align_def week_end_def
  List.map_filter_simps

lemma sample_rows:
  "aligned_rows sample_download ''A'' ''B'' = [(7, 11, 10), (14, 12, 12), (21, 13, 11)]"
  "aligned_rows sample_download ''B'' ''A'' = [(7, 10, 11), (14, 12, 12), (21, 11, 13)]"
  "aligned_rows sample_download ''A'' ''C'' = [(21, 13, 11)]"
  "aligned_rows sample_download ''B'' ''C'' = [(21, 11, 11), (28, 13, 12), (35, 15, 13)]"
  "aligned_rows sample_download ''A'' ''D'' = [(7, 11, 10), (14, 12, 8), (21, 13, 11)]"
  "aligned_rows sample_download ''A'' ''E'' = [(7, 11, 10), (14, 12, 11), (21, 13, 12)]"
  "aligned_rows sample_download ''B'' ''E'' = [(7, 10, 10), (14, 12, 11), (21, 11, 12)]"
  "aligned_rows sample_download ''A'' ''F'' = []"
  "aligned_rows sample_download ''A'' ''G'' = []"
  "aligned_rows sample_download ''A'' ''H'' = []"
  by (simp_all add: sample_eval)

lemmas level_eval =
  spread_of_def is_max_def is_min_def highest_def lowest_def current_def

section \<open>The signal classifier\<close>

text \<open>
  C3. For an analyzed pair (one with aligned rows) with highest, lowest and current spread:
  when \<open>is_max\<close> holds the loop body appends one signal of type \<open>Max level\<close> with
  risk = highest - current and reward = current - lowest, and records the second ticker
  as long and the first as short; when only \<open>is_min\<close> holds it appends one signal of type
  \<open>Min level\<close> with risk = current - lowest and reward = highest - current, long the first
  ticker and short the second; when neither holds the state is unchanged.
\<close>

theorem classifier_cases:
  assumes "aligned_rows download t1 t2 = al" and "al \<noteq> []" and "spread_of al = sp"
    and "t1 \<noteq> t2"
  shows "(is_max sp \<longrightarrow>
            (\<exists>s. analyze_pair download (t1, t2) st =
                   \<lparr> pair_scores = pair_scores st @ [s],
                     long_positions = long_positions st @ [t2],
                     short_positions = short_positions st @ [t1] \<rparr>
                 \<and> signal_type s = ''Max level'' \<and> ticker1 s = t1 \<and> ticker2 s = t2
                 \<and> risk s = highest sp - current sp \<and> reward s = current sp - lowest sp))
       \<and> (\<not> is_max sp \<and> is_min sp \<longrightarrow>
            (\<exists>s. analyze_pair download (t1, t2) st =
                   \<lparr> pair_scores = pair_scores st @ [s],
                     long_positions = long_positions st @ [t1],
                     short_positions = short_positions st @ [t2] \<rparr>
                 \<and> signal_type s = ''Min level'' \<and> ticker1 s = t1 \<and> ticker2 s = t2
                 \<and> risk s = current sp - lowest sp \<and> reward s = highest sp - current sp))
       \<and> (\<not> is_max sp \<and> \<not> is_min sp \<longrightarrow> analyze_pair download (t1, t2) st = st)"
proof -
  have body: "analyze_pair download (t1, t2) st = analyze_aligned st t1 t2 al"
    using assms(1,2) by (simp add: analyze_pair_rows)
  show ?thesis
    unfolding body using assms(3)
    by (auto simp: analyze_aligned_max analyze_aligned_min analyze_aligned_none)
qed

theorem classifier_cases_witness:
  "(\<exists>s. analyze_pair sample_download (''A'', ''B'') initial_state =
          \<lparr> pair_scores = [s], long_positions = [''B''], short_positions = [''A''] \<rparr>
        \<and> signal_type s = ''Max level'' \<and> ticker1 s = ''A'' \<and> ticker2 s = ''B''
        \<and> risk s = 0 \<and> reward s = 2)
   \<and> (\<exists>s. analyze_pair sample_download (''B'', ''A'') initial_state =
          \<lparr> pair_scores = [s], long_positions = [''B''], short_positions = [''A''] \<rparr>
        \<and> signal_type s = ''Min level'' \<and> ticker1 s = ''B'' \<and> ticker2 s = ''A''
        \<and> risk s = 0 \<and> reward s = 2)
   \<and> analyze_pair sample_download (''A'', ''D'') initial_state = initial_state"
proof -
  have ab: "is_max [1, 0, 2]" "highest [1, 0, 2] - current [1, 0, 2] = 0"
      "current [1, 0, 2] - lowest [1, 0, 2] = 2"
    by (simp_all add: level_eval)
  have ba: "\<not> is_max [- 1, 0, - 2]" "is_min [- 1, 0, - 2]"
      "current [- 1, 0, - 2] - lowest [- 1, 0, - 2] = 0"
      "highest [- 1, 0, - 2] - current [- 1, 0, - 2] = 2"
    by (simp_all add: level_eval)
  have ad: "\<not> is_max [1, 4, 2]" "\<not> is_min [1, 4, 2]"
    by (simp_all add: level_eval)
  have 1: "spread_of [(7, 11, 10), (14, 12, 12), (21, 13, 11)] = [1, 0, 2]"
    and 2: "spread_of [(7, 10, 11), (14, 12, 12), (21, 11, 13)] = [- 1, 0, - 2]"
    and 3: "spread_of [(7, 11, 10), (14, 12, 8), (21, 13, 11)] = [1, 4, 2]"
    by (simp_all add: spread_of_def)
  show ?thesis
    using classifier_cases [OF sample_rows(1) _ 1, of initial_state]
      classifier_cases [OF sample_rows(2) _ 2, of initial_state]
      classifier_cases [OF sample_rows(5) _ 3, of initial_state]
    by (simp add: ab ba ad)
qed

text \<open>
  C4. When \<open>is_max\<close> and \<open>is_min\<close> hold together, the appended signal is of type
  \<open>Max level\<close>, not \<open>Min level\<close>, with the second ticker long and the first short.
\<close>

theorem classifier_priority:
  assumes "aligned_rows download t1 t2 = al" and "al \<noteq> []" and "spread_of al = sp"
    and "is_max sp" and "is_min sp" and "t1 \<noteq> t2"
  shows "\<exists>s. pair_scores (analyze_pair download (t1, t2) st) = pair_scores st @ [s]
            \<and> signal_type s = ''Max level'' \<and> signal_type s \<noteq> ''Min level''
            \<and> long_positions (analyze_pair download (t1, t2) st) = long_positions st @ [t2]
            \<and> short_positions (analyze_pair download (t1, t2) st) = short_positions st @ [t1]"
proof -
  have "analyze_pair download (t1, t2) st = analyze_aligned st t1 t2 al"
    using assms(1,2) by (simp add: analyze_pair_rows)
  then show ?thesis
    using assms(3,4) by (simp add: analyze_aligned_max)
qed

theorem classifier_priority_witness:
  "is_max (spread_of (aligned_rows sample_download ''A'' ''E''))
   \<and> is_min (spread_of (aligned_rows sample_download ''A'' ''E''))
   \<and> map signal_type (pair_scores (analyze_pair sample_download (''A'', ''E'') initial_state))
       = [''Max level'']
   \<and> is_max (spread_of (aligned_rows sample_download ''A'' ''C''))
   \<and> is_min (spread_of (aligned_rows sample_download ''A'' ''C''))
   \<and> map signal_type (pair_scores (analyze_pair sample_download (''A'', ''C'') initial_state))
       = [''Max level'']"
proof -
  have flat: "is_max (spread_of [(7, 11, 10), (14, 12, 11), (21, 13, 12)])"
      "is_min (spread_of [(7, 11, 10), (14, 12, 11), (21, 13, 12)])"
    by (simp_all add: level_eval)
  have single: "is_max (spread_of [(21, 13, 11)])" "is_min (spread_of [(21, 13, 11)])"
    by (simp_all add: level_eval)
  show ?thesis
    using classifier_priority [OF sample_rows(6) _ refl flat, of initial_state]
      classifier_priority [OF sample_rows(3) _ refl single, of initial_state]
    by (auto simp: sample_rows flat single)
qed

text \<open>
  C10. When the current spread of an analyzed pair equals its highest spread, \<open>is_max\<close>
  holds and the loop body appends a \<open>Max level\<close> signal with risk 0; a pair with exactly
  one aligned row always gets a \<open>Max level\<close> signal with risk 0 and reward 0.
\<close>

theorem current_at_maximum:
  assumes "aligned_rows download t1 t2 = al" and "al \<noteq> []" and "spread_of al = sp"
    and "t1 \<noteq> t2"
  shows "(current sp = highest sp \<longrightarrow>
            is_max sp \<and>
            (\<exists>s. pair_scores (analyze_pair download (t1, t2) st) = pair_scores st @ [s]
                 \<and> signal_type s = ''Max level'' \<and> risk s = 0))
       \<and> (length al = 1 \<longrightarrow>
            (\<exists>s. pair_scores (analyze_pair download (t1, t2) st) = pair_scores st @ [s]
                 \<and> signal_type s = ''Max level'' \<and> risk s = 0 \<and> reward s = 0))"
proof -
  have body: "analyze_pair download (t1, t2) st = analyze_aligned st t1 t2 al"
    using assms(1,2) by (simp add: analyze_pair_rows)
  have top: "is_max sp" if "current sp = highest sp"
    using that by (simp add: is_max_def)
  have one: "current sp = highest sp \<and> current sp = lowest sp" if "length al = 1"
  proof -
    from that have "\<exists>r. al = [r]"
      by (auto simp: length_Suc_conv)
    then obtain r where "al = [r]" ..
    then show ?thesis
      using assms(3) by (auto simp: level_eval)
  qed
  show ?thesis
    unfolding body using assms(3) top one
    by (auto simp: analyze_aligned_max)
qed

theorem current_at_maximum_witness:
  "current (spread_of (aligned_rows sample_download ''B'' ''C''))
     = highest (spread_of (aligned_rows sample_download ''B'' ''C''))
   \<and> map (\<lambda>s. (signal_type s, risk s))
        (pair_scores (analyze_pair sample_download (''B'', ''C'') initial_state))
       = [(''Max level'', 0)]
   \<and> length (aligned_rows sample_download ''A'' ''C'') = 1
   \<and> map (\<lambda>s. (signal_type s, risk s, reward s))
        (pair_scores (analyze_pair sample_download (''A'', ''C'') initial_state))
       = [(''Max level'', 0, 0)]"
proof -
  have bc: "current (spread_of [(21, 11, 11), (28, 13, 12), (35, 15, 13)])
            = highest (spread_of [(21, 11, 11), (28, 13, 12), (35, 15, 13)])"
    by (simp add: level_eval)
  show ?thesis
    using current_at_maximum [OF sample_rows(4) _ refl, of initial_state]
      current_at_maximum [OF sample_rows(3) _ refl, of initial_state]
    by (auto simp: sample_rows bc)
qed


section \<open>The ranked signals\<close>

lemma ranked_signals:
  "mset (pair_signals (analyze_ticker_pairs download tickers)) =
     mset (concat (map (signals_of_pair download) (combinations2 tickers)))"
  by (simp add: analyze_ticker_pairs_def Let_def mset_sort_desc scan_signals(1))

lemma set_ranked_signals:
  "set (pair_signals (analyze_ticker_pairs download tickers)) =
     (\<Union>p\<in>set (combinations2 tickers). set (signals_of_pair download p))"
  by (simp add: analyze_ticker_pairs_def Let_def set_sort_desc scan_signals(1))



lemma sort_desc_single [simp]: "sort_desc [x] = [x]"
  by (simp add: sort_desc_def)

lemma sample_signals:
  "signals_of_pair sample_download (''A'', ''B'') =
     [make_signal ''A'' ''B'' [(7, 11, 10), (14, 12, 12), (21, 13, 11)] ''Max level'' 0 2]"
  "signals_of_pair sample_download (''A'', ''C'') =
     [make_signal ''A'' ''C'' [(21, 13, 11)] ''Max level'' 0 0]"
  "signals_of_pair sample_download (''B'', ''C'') =
     [make_signal ''B'' ''C'' [(21, 11, 11), (28, 13, 12), (35, 15, 13)] ''Max level'' 0 2]"
  "signals_of_pair sample_download (''A'', ''E'') =
     [make_signal ''A'' ''E'' [(7, 11, 10), (14, 12, 11), (21, 13, 12)] ''Max level'' 0 0]"
  "signals_of_pair sample_download (''B'', ''E'') =
     [make_signal ''B'' ''E'' [(7, 10, 10), (14, 12, 11), (21, 11, 12)] ''Min level'' 0 2]"
  "signals_of_pair sample_download (''A'', ''D'') = []"
  "signals_of_pair sample_download (''A'', ''F'') = []"
  by (simp_all add: signals_of_pair_cases sample_rows level_eval)


section \<open>The totals of the tallies\<close>

lemma count_list_map: "count_list (map f xs) t = length (filter (\<lambda>s. f s = t) xs)"
  by (induction xs) simp_all

lemma length_filter_sort_desc: "length (filter P (sort_desc xs)) = length (filter P xs)"
proof -
  have "mset (filter P (sort_desc xs)) = mset (filter P xs)"
    by (simp add: mset_sort_desc)
  then show ?thesis
    by (metis size_mset)
qed

text \<open>
  C7. The counts of the long tally and the counts of the short tally each add up to the
  number of ranked signals; and the count an instrument has in the long (short) tally is
  the number of signals whose long (short) leg it is.
\<close>

theorem tally_sums:
  assumes "distinct tickers"
  shows "(let r = analyze_ticker_pairs download tickers in
     sum_list (map snd (longs r)) = length (pair_signals r)
     \<and> sum_list (map snd (shorts r)) = length (pair_signals r)
     \<and> tally (longs r) t = length (filter (\<lambda>s. long_leg s = t) (pair_signals r))
     \<and> tally (shorts r) t = length (filter (\<lambda>s. short_leg s = t) (pair_signals r)))"
  by (simp add: analyze_ticker_pairs_def Let_def sum_sorted_counts sum_Counter
      length_sort_desc scan_signals(2,3) tally_sorted_counts distinct_Counter tally_Counter
      count_list_map length_filter_sort_desc)

theorem tally_sums_witness:
  "distinct [''A'', ''B'', ''C'']
   \<and> length (pair_signals (analyze_ticker_pairs sample_download [''A'', ''B'', ''C''])) = 3
   \<and> longs (analyze_ticker_pairs sample_download [''A'', ''B'', ''C''])
       = [(''C'', 2), (''B'', 1)]
   \<and> shorts (analyze_ticker_pairs sample_download [''A'', ''B'', ''C''])
       = [(''A'', 2), (''B'', 1)]
   \<and> sum_list (map snd (longs (analyze_ticker_pairs sample_download [''A'', ''B'', ''C''])))
       = 3
   \<and> sum_list (map snd (shorts (analyze_ticker_pairs sample_download [''A'', ''B'', ''C''])))
       = 3"
proof -
  have found: "pair_scores (scan sample_download [''A'', ''B'', ''C'']) =
     [make_signal ''A'' ''B'' [(7, 11, 10), (14, 12, 12), (21, 13, 11)] ''Max level'' 0 2,
      make_signal ''A'' ''C'' [(21, 13, 11)] ''Max level'' 0 0,
      make_signal ''B'' ''C'' [(21, 11, 11), (28, 13, 12), (35, 15, 13)] ''Max level'' 0 2]"
    by (simp add: scan_signals(1) sample_signals)
  have legs: "long_positions (scan sample_download [''A'', ''B'', ''C'']) = [''B'', ''C'', ''C'']"
      "short_positions (scan sample_download [''A'', ''B'', ''C'']) = [''A'', ''A'', ''B'']"
    by (simp_all add: scan_signals(2,3) found)
  have tallies: "longs (analyze_ticker_pairs sample_download [''A'', ''B'', ''C''])
       = [(''C'', 2), (''B'', 1)]"
      "shorts (analyze_ticker_pairs sample_download [''A'', ''B'', ''C''])
       = [(''A'', 2), (''B'', 1)]"
    by (simp_all add: analyze_ticker_pairs_def Let_def legs Counter_def sorted_counts_def)
  have d: "distinct [''A'', ''B'', ''C'']"
    by simp
  from tally_sums [OF d, of sample_download] show ?thesis
    by (simp add: Let_def tallies)
qed

section \<open>Undefined statistics\<close>

lemma total_score_of_NaN [simp]: "total_score_of NaN p z = NaN"
  by (simp add: total_score_of_def)

lemma correlation_single: "length al \<le> 1 \<Longrightarrow> correlation_of al = NaN"
  by (simp add: correlation_of_def series1_def)

lemma std_single: "std [x] = NaN"
  by (simp add: std_def)




lemma triggered_signal_ranked:
  assumes "(t1, t2) \<in> set (combinations2 tickers)"
    and "aligned_rows download t1 t2 = al" and "al \<noteq> []"
    and "is_max (spread_of al) \<or> is_min (spread_of al)"
  shows "\<exists>s\<in>set (pair_signals (analyze_ticker_pairs download tickers)).
           ticker1 s = t1 \<and> ticker2 s = t2 \<and> correlation s = correlation_of al
           \<and> total_score s =
               total_score_of (correlation_of al) (mean_rev_prob_of (z_score_of (spread_of al)))
                 (z_score_of (spread_of al))"
proof -
  have "\<exists>s\<in>set (signals_of_pair download (t1, t2)).
           ticker1 s = t1 \<and> ticker2 s = t2 \<and> correlation s = correlation_of al
           \<and> total_score s =
               total_score_of (correlation_of al) (mean_rev_prob_of (z_score_of (spread_of al)))
                 (z_score_of (spread_of al))"
    using assms(2,3,4) by (auto simp: signals_of_pair_cases Let_def)
  then show ?thesis
    using assms(1) by (auto simp: set_ranked_signals)
qed

text \<open>
  C1, as the code has it. A pair whose correlation is not-a-number is not excluded: it is
  classified like any other pair, and when it triggers the classifier its signal is in the
  ranked list, with not-a-number as correlation and as total score. A pair with exactly one
  aligned row has a not-a-number correlation and always triggers, so it is always ranked.
  Processing continues: the ranked list holds the signals of all pairs of the run.
\<close>

theorem nan_correlation_still_ranked:
  assumes "(t1, t2) \<in> set (combinations2 tickers)"
    and "aligned_rows download t1 t2 = al" and "al \<noteq> []" and "spread_of al = sp"
    and "distinct tickers"
  shows "(correlation_of al = NaN \<and> (is_max sp \<or> is_min sp) \<longrightarrow>
            (\<exists>s\<in>set (pair_signals (analyze_ticker_pairs download tickers)).
               ticker1 s = t1 \<and> ticker2 s = t2 \<and> correlation s = NaN \<and> total_score s = NaN))
       \<and> (length al = 1 \<longrightarrow>
            correlation_of al = NaN \<and>
            (\<exists>s\<in>set (pair_signals (analyze_ticker_pairs download tickers)).
               ticker1 s = t1 \<and> ticker2 s = t2 \<and> correlation s = NaN \<and> total_score s = NaN))
       \<and> mset (pair_signals (analyze_ticker_pairs download tickers))
           = mset (concat (map (signals_of_pair download) (combinations2 tickers)))"
proof -
  have first: "\<exists>s\<in>set (pair_signals (analyze_ticker_pairs download tickers)).
               ticker1 s = t1 \<and> ticker2 s = t2 \<and> correlation s = NaN \<and> total_score s = NaN"
    if "correlation_of al = NaN" and "is_max sp \<or> is_min sp"
    using triggered_signal_ranked [OF assms(1,2,3)] that assms(4) by simp
  have one: "correlation_of al = NaN \<and> is_max sp" if "length al = 1"
  proof -
    from that have "\<exists>r. al = [r]"
      by (auto simp: length_Suc_conv)
    then obtain r where "al = [r]" ..
    then show ?thesis
      using assms(4) by (auto simp: correlation_single level_eval)
  qed
  show ?thesis
    using first one ranked_signals [of download tickers] by blast
qed

theorem nan_correlation_still_ranked_witness:
  "(''A'', ''C'') \<in> set (combinations2 [''A'', ''B'', ''C''])
   \<and> length (aligned_rows sample_download ''A'' ''C'') = 1
   \<and> correlation_of (aligned_rows sample_download ''A'' ''C'') = NaN
   \<and> is_max (spread_of (aligned_rows sample_download ''A'' ''C''))
   \<and> (\<exists>s\<in>set (pair_signals (analyze_ticker_pairs sample_download [''A'', ''B'', ''C''])).
         ticker1 s = ''A'' \<and> ticker2 s = ''C'' \<and> correlation s = NaN \<and> total_score s = NaN)"
proof -
  have "(''A'', ''C'') \<in> set (combinations2 [''A'', ''B'', ''C''])"
    by simp
  from nan_correlation_still_ranked [OF this sample_rows(3) _ refl]
  show ?thesis
    by (simp add: sample_rows correlation_single level_eval)
qed

theorem nan_pair_ranked_counterexample:
  "correlation_of (aligned_rows sample_download ''A'' ''C'') = NaN
   \<and> map ticker1 (pair_signals (analyze_ticker_pairs sample_download [''A'', ''C''])) = [''A'']
   \<and> map ticker2 (pair_signals (analyze_ticker_pairs sample_download [''A'', ''C''])) = [''C'']
   \<and> map correlation (pair_signals (analyze_ticker_pairs sample_download [''A'', ''C'']))
       = [NaN]
   \<and> map total_score (pair_signals (analyze_ticker_pairs sample_download [''A'', ''C'']))
       = [NaN]"
  by (simp add: analyze_ticker_pairs_def Let_def scan_signals(1) sample_signals sample_rows
      correlation_single)

section \<open>The z-score and the mean-reversion probability\<close>









section \<open>The order of the ranked signals\<close>



text \<open>
  A list of at least two scores that contains not-a-number is in descending order in no
  arrangement, since not-a-number is neither above nor below any score.
\<close>

lemma nan_never_sorted:
  assumes "NaN \<in> set vs" and "2 \<le> length vs"
  shows "\<not> sorted_desc vs"
proof
  assume "sorted_desc vs"
  then have s: "sorted_wrt fl_ge vs"
    by (simp add: sorted_desc_def)
  from assms(1) obtain i where i: "i < length vs" "vs ! i = NaN"
    by (auto simp: in_set_conv_nth)
  from assms(2) i(1) obtain j where j: "j < length vs" "j \<noteq> i"
    by (metis One_nat_def Suc_1 Suc_le_lessD less_nat_zero_code nat_neq_iff not_less_eq)
  have "fl_ge (vs ! min i j) (vs ! max i j)"
    using s i(1) j by (auto simp: sorted_wrt_iff_nth_less min_def max_def)
  then show False
    using i(2) j(2) by (cases "vs ! j") (auto simp: min_def max_def split: if_splits)
qed




section \<open>Alignment in the other order\<close>



lemma align_Nil [simp]: "align [] w2 = []"
  by (simp add: align_def)








section \<open>Exchanging the two instruments of a pair\<close>













end
